theory Spec2Isabelle
  imports Main "HOL-Library.Sublist" "HOL-Library.Multiset" "HOL-Library.AList"
begin

section \<open>The finding model (internal/finding/finding.go)\<close>

text \<open>
  \<^verbatim>\<open>type Severity string\<close> with the three constants \<^verbatim>\<open>Info\<close>, \<^verbatim>\<open>Warning\<close>, \<^verbatim>\<open>Error\<close>; no
  other severity is ever built, so the type is the enumeration of the three.
\<close>

datatype Severity = Info | Warning | Error

record Finding =
  File :: string
  Severity :: Severity
  Message :: string

section \<open>Strings (package strings, path/filepath, fmt)\<close>

text \<open>
  A Go string is a byte sequence: \<^typ>\<open>string\<close>. The case mapping and the white space of
  the model are those of ASCII, the range of every name of the rule catalogs; the Unicode
  case folding and white space of code points beyond ASCII are outside the model.
\<close>

definition Contains :: "string \<Rightarrow> string \<Rightarrow> bool" where
  \<comment> \<open>\<^verbatim>\<open>strings.Contains(s, substr)\<close>\<close>
  "Contains s substr = sublist substr s"

definition toLowerChar :: "char \<Rightarrow> char" where
  \<comment> \<open>an upper-case ASCII letter becomes its lower-case letter, any other byte stays\<close>
  "toLowerChar c =
     (case map_of (zip ''ABCDEFGHIJKLMNOPQRSTUVWXYZ'' ''abcdefghijklmnopqrstuvwxyz'') c of
        Some l \<Rightarrow> l
      | None \<Rightarrow> c)"

definition ToLower :: "string \<Rightarrow> string" where
  \<comment> \<open>\<^verbatim>\<open>strings.ToLower\<close>\<close>
  "ToLower s = map toLowerChar s"

definition isSpace :: "char \<Rightarrow> bool" where
  \<comment> \<open>\<^verbatim>\<open>unicode.IsSpace\<close> on ASCII: tab, line feed, vertical tab, form feed, carriage
      return, space\<close>
  "isSpace c = (c \<in> set [CHR 0x09, CHR 0x0A, CHR 0x0B, CHR 0x0C, CHR 0x0D, CHR 0x20])"

definition TrimSpace :: "string \<Rightarrow> string" where
  \<comment> \<open>\<^verbatim>\<open>strings.TrimSpace\<close>\<close>
  "TrimSpace s = rev (dropWhile isSpace (rev (dropWhile isSpace s)))"

fun splitFrom :: "string \<Rightarrow> string \<Rightarrow> string \<Rightarrow> string list" where
  \<comment> \<open>the scan of \<^verbatim>\<open>strings.Split\<close> for a non-empty separator: \<open>cur\<close> is the piece read so far\<close>
  "splitFrom sep cur [] = [cur]"
| "splitFrom sep cur (c # cs) =
     (if sep \<noteq> [] \<and> prefix sep (c # cs)
      then cur # splitFrom sep [] (drop (length sep - 1) cs)
      else splitFrom sep (cur @ [c]) cs)"

definition Split :: "string \<Rightarrow> string \<Rightarrow> string list" where
  \<comment> \<open>\<^verbatim>\<open>strings.Split(s, sep)\<close>; an empty separator cuts after every byte (ASCII)\<close>
  "Split s sep = (if sep = [] then map (\<lambda>c. [c]) s else splitFrom sep [] s)"

fun extScan :: "string \<Rightarrow> string \<Rightarrow> string" where
  \<comment> \<open>the loop of \<^verbatim>\<open>filepath.Ext\<close>, from the last byte backwards: \<open>acc\<close> is the suffix passed\<close>
  "extScan [] acc = []"
| "extScan (c # cs) acc =
     (if c = CHR ''/'' then []
      else if c = CHR ''.'' then c # acc
      else extScan cs (c # acc))"

definition Ext :: "string \<Rightarrow> string" where
  \<comment> \<open>\<^verbatim>\<open>filepath.Ext(path)\<close>: the suffix from the last dot of the last path element\<close>
  "Ext path = extScan (rev path) []"

definition quoted :: "string \<Rightarrow> string" where
  \<comment> \<open>\<^verbatim>\<open>'%s'\<close>\<close>
  "quoted s = [CHR 0x27] @ s @ [CHR 0x27]"

definition digit :: "nat \<Rightarrow> char" where
  "digit d = ''0123456789'' ! d"

fun decimal :: "nat \<Rightarrow> string" where
  \<comment> \<open>\<^verbatim>\<open>%d\<close> of a non-negative integer\<close>
  "decimal n = (if n < 10 then [digit n] else decimal (n div 10) @ [digit (n mod 10)])"

declare decimal.simps [simp del]

section \<open>Go maps and their iteration order\<close>

text \<open>
  A Go map is an association list; the map it denotes is \<^term>\<open>map_of\<close> of it, and its keys
  are \<open>keys\<close>. A \<^verbatim>\<open>range\<close> over a map yields the entries in an order the language leaves
  unspecified and the runtime randomises, anew at every loop. The orders are a parameter of
  the model: \<open>ord site ks\<close> is the order in which the loop \<open>site\<close> yields the keys \<open>ks\<close>, and a
  run gives such orders to every place where a scan ranges over a map, \<open>run p pos\<close> for the
  file \<open>p\<close> and the position \<open>pos\<close> in it (the index of the block; the indices of the play and
  of the task), so that no two loops of a scan share their order. Every permutation is a
  possible order (\<open>permutation_order\<close>, \<open>permutation_run\<close>).
\<close>

datatype range_site =
    ResourceAttrs    \<comment> \<open>terraform.go: \<^verbatim>\<open>for attrName, attr := range attrs\<close>\<close>
  | PlayVars         \<comment> \<open>ansible: \<^verbatim>\<open>for varName := range play.Vars\<close>\<close>
  | TaskKeys         \<comment> \<open>ansible: \<^verbatim>\<open>for key := range task\<close>\<close>
  | TaskAttrs        \<comment> \<open>ansible: \<^verbatim>\<open>for attr, val := range task\<close>\<close>
  | DefinedVars      \<comment> \<open>ansible: \<^verbatim>\<open>for varName := range definedVars\<close>\<close>

type_synonym range_order = "range_site \<Rightarrow> string list \<Rightarrow> string list"

type_synonym run_orders = "string \<Rightarrow> nat list \<Rightarrow> range_order"



definition keys :: "(string \<times> 'v) list \<Rightarrow> string list" where
  "keys m = remdups (map fst m)"

definition rangeMap :: "range_order \<Rightarrow> range_site \<Rightarrow> (string \<times> 'v) list \<Rightarrow> (string \<times> 'v) list" where
  \<comment> \<open>the entries of \<open>m\<close> as one \<^verbatim>\<open>range\<close> at \<open>site\<close> yields them\<close>
  "rangeMap ord site m =
     concat (map (\<lambda>k. case map_of m k of None \<Rightarrow> [] | Some v \<Rightarrow> [(k, v)]) (ord site (keys m)))"

definition source_order :: range_order where
  \<comment> \<open>one possible order: the entries as written\<close>
  "source_order site ks = ks"

definition reverse_order :: range_order where
  \<comment> \<open>another possible order: the entries from the last to the first\<close>
  "reverse_order site ks = rev ks"

definition source_run :: run_orders where
  \<comment> \<open>one possible run: every loop yields the entries as written\<close>
  "source_run p pos = source_order"


section \<open>The file tree walk (filepath.Walk)\<close>

text \<open>
  The walker is a collaborator of the scans. A walk is the sequence of calls it makes to the
  callback, in its lexical order: a call with a non-nil error (\<open>WalkError path err\<close>), a
  directory, or another file with what reading it gives (\<open>'a\<close>, per dialect). The walk stops
  at the first call that returns a non-nil error and returns that error.
\<close>

datatype 'a walk_entry =
    WalkError string string
  | Directory string
  | RegularFile string 'a

fun Walk :: "('a walk_entry \<Rightarrow> Finding list \<Rightarrow> Finding list \<times> string option)
    \<Rightarrow> 'a walk_entry list \<Rightarrow> Finding list \<Rightarrow> Finding list \<times> string option" where
  "Walk fn [] findings = (findings, None)"
| "Walk fn (e # es) findings =
     (case fn e findings of
        (findings', Some err) \<Rightarrow> (findings', Some err)
      | (findings', None) \<Rightarrow> Walk fn es findings')"

definition walk_fails :: "'a walk_entry list \<Rightarrow> bool" where
  "walk_fails es = list_ex (\<lambda>e. case e of WalkError p err \<Rightarrow> True | _ \<Rightarrow> False) es"

section \<open>The declarative dialect (internal/terraform/terraform.go)\<close>

text \<open>
  The HCL library is a collaborator: the model takes what its calls return. A value of the
  library (\<^verbatim>\<open>cty.Value\<close>) is a string, a number, a boolean, an object, a tuple or null; an
  attribute's expression is what \<^verbatim>\<open>Expr.Value(nil)\<close> gives, a value or error diagnostics.
  Which blocks \<^verbatim>\<open>PartialContent\<close> returns for a given text, under the schema that \<^verbatim>\<open>Scan\<close>
  passes (the block types \<^verbatim>\<open>resource\<close> and \<^verbatim>\<open>variable\<close>, no label names), is the library's
  matter: a file is either an error of one of the two calls or the list of blocks returned.
\<close>

datatype cty =
    CtyString string
  | CtyNumber int
  | CtyBool bool
  | CtyObject "(string \<times> cty) list"
  | CtyTuple "cty list"
  | CtyNull

datatype expr =
    Resolved cty        \<comment> \<open>\<^verbatim>\<open>Expr.Value(nil)\<close> without errors\<close>
  | Unresolved string   \<comment> \<open>\<^verbatim>\<open>diag.HasErrors()\<close>: a reference, a function call\<close>

datatype body =
    Attributes "(string \<times> expr) list"   \<comment> \<open>\<^verbatim>\<open>Body.JustAttributes()\<close> without errors\<close>
  | BodyError string                       \<comment> \<open>\<^verbatim>\<open>diags.HasErrors()\<close>: a nested block\<close>

record block =
  Type :: string
  Labels :: "string list"
  Body :: body

datatype hcl_file =
    ParseError string      \<comment> \<open>\<^verbatim>\<open>ParseHCLFile\<close>: the file cannot be read or does not parse\<close>
  | ContentError string    \<comment> \<open>\<^verbatim>\<open>Body.PartialContent\<close> has errors\<close>
  | Content "block list"   \<comment> \<open>\<^verbatim>\<open>content.Blocks\<close>\<close>

definition deprecatedResources :: "(string \<times> string) list" where
  "deprecatedResources =
    [(''aws_db_instance'', ''This resource is deprecated, use aws_rds_instance instead.''),
     (''aws_elb'', ''This resource is deprecated, use aws_lb instead.''),
     (''aws_elasticsearch_domain'', ''This resource is deprecated, use aws_opensearch_domain instead.''),
     (''aws_iam_policy_attachment'', ''This resource is deprecated, use aws_iam_role_policy_attachment or aws_iam_user_policy_attachment instead.''),
     (''aws_launch_configuration'', ''This resource is deprecated, use aws_autoscaling_group with launch template instead.''),
     (''aws_acm_certificate_validation'', ''Deprecated in favor of aws_acm_certificate with validation blocks.''),
     (''aws_cloudwatch_event_rule'', ''This resource is deprecated, use aws_cloudwatch_event_rule (newer schema) or aws_eventbridge_rule.''),
     (''aws_route53_record'', ''Use caution, certain types or configurations may be deprecated; check latest provider docs.''),
     (''aws_sns_topic_subscription'', ''Deprecated in favor of aws_sns_subscription.''),
     (''aws_spot_instance_request'', ''This resource is deprecated, use aws_spot_fleet_request or aws_ec2_spot_fleet instead.''),
     (''aws_elastic_beanstalk_environment'', ''Check if using legacy configs; aws_elastic_beanstalk_environment is still supported but monitor provider updates.''),
     (''aws_iam_group_policy_attachment'', ''Deprecated, prefer aws_iam_group_policy.'')]"

definition isSensitiveKeyword :: "string \<Rightarrow> bool" where
  \<comment> \<open>a helper of the package that no scan calls\<close>
  "isSensitiveKeyword name =
     list_ex (\<lambda>s. Contains name s) [''password'', ''secret'', ''token'', ''key'', ''access'']"

definition secretKeywords :: "string list" where
  \<comment> \<open>the list \<^verbatim>\<open>secretKeywords\<close> that \<^verbatim>\<open>Scan\<close> declares and consults\<close>
  "secretKeywords = [''password'', ''secret'', ''token'', ''key'', ''pwd'']"

definition requiredTags :: "string list" where
  "requiredTags = [''Environment'', ''Owner'', ''Project'']"

text \<open>
  The checks of one resource block. A \<^verbatim>\<open>continue\<close> in the \<^verbatim>\<open>switch\<close> leaves the block (it
  continues the loop over the blocks): a check that ends so returns \<open>None\<close>, and the findings
  appended before it stay.
\<close>

definition deprecatedCheck :: "string \<Rightarrow> string \<Rightarrow> Finding list" where
  "deprecatedCheck p resourceType =
     (case map_of deprecatedResources resourceType of
        Some msg \<Rightarrow>
          [\<lparr>File = p, Severity = Warning,
            Message = ''Resource type '' @ quoted resourceType
                      @ '' is deprecated: '' @ msg\<rparr>]
      | None \<Rightarrow> [])"

definition aclCheck :: "string \<Rightarrow> string \<Rightarrow> (string \<times> expr) list \<Rightarrow> Finding list option" where
  "aclCheck p resourceType attrs =
     (if resourceType = ''aws_s3_bucket'' then
        (case map_of attrs ''acl'' of
           Some aclAttr \<Rightarrow>
             (case aclAttr of
                Unresolved d \<Rightarrow> None
              | Resolved val \<Rightarrow>
                  (if val = CtyString ''public-read''
                   then Some [\<lparr>File = p, Severity = Warning,
                     Message = ''S3 bucket ACL is set to public-read (publicly readable)''\<rparr>]
                   else Some []))
         | None \<Rightarrow> Some [])
      else Some [])"

definition missingTag :: "string \<Rightarrow> string \<Rightarrow> Finding" where
  "missingTag p tag =
     \<lparr>File = p, Severity = Warning,
      Message = ''Resource missing required tag '' @ quoted tag\<rparr>"

definition tagsCheck :: "string \<Rightarrow> (string \<times> expr) list \<Rightarrow> Finding list option" where
  "tagsCheck p attrs =
     (case map_of attrs ''tags'' of
        Some tagsAttr \<Rightarrow>
          (case tagsAttr of
             Resolved (CtyObject tagsMap) \<Rightarrow>
               Some (map (missingTag p) (filter (\<lambda>tag. map_of tagsMap tag = None) requiredTags))
           | _ \<Rightarrow> None)
      | None \<Rightarrow>
          Some [\<lparr>File = p, Severity = Warning,
            Message = ''Resource missing '' @ quoted ''tags''
                      @ '' attribute entirely''\<rparr>])"

definition secretFinding :: "string \<Rightarrow> string \<Rightarrow> Finding" where
  "secretFinding p attrName =
     \<lparr>File = p, Severity = Error,
      Message = ''Resource attribute '' @ quoted attrName
                @ '' may contain hardcoded secret''\<rparr>"

fun attrKeywords :: "string \<Rightarrow> string \<Rightarrow> string \<Rightarrow> expr \<Rightarrow> string list \<Rightarrow> Finding list" where
  \<comment> \<open>\<^verbatim>\<open>for _, kw := range secretKeywords\<close> for one attribute: \<^verbatim>\<open>continue\<close> goes to the next
      keyword, \<^verbatim>\<open>break\<close> ends the loop\<close>
  "attrKeywords p attrName lowerName attr [] = []"
| "attrKeywords p attrName lowerName attr (kw # kws) =
     (if Contains lowerName kw then
        (case attr of
           Unresolved d \<Rightarrow> attrKeywords p attrName lowerName attr kws
         | Resolved CtyNull \<Rightarrow> attrKeywords p attrName lowerName attr kws
         | Resolved (CtyString s) \<Rightarrow> (if s \<noteq> [] then [secretFinding p attrName] else [])
         | Resolved val \<Rightarrow> [])
      else attrKeywords p attrName lowerName attr kws)"

definition secretsCheck :: "range_order \<Rightarrow> string \<Rightarrow> (string \<times> expr) list \<Rightarrow> Finding list" where
  "secretsCheck ord p attrs =
     concat (map (\<lambda>(attrName, attr). attrKeywords p attrName (ToLower attrName) attr secretKeywords)
                 (rangeMap ord ResourceAttrs attrs))"

definition resourceBlock :: "range_order \<Rightarrow> string \<Rightarrow> block \<Rightarrow> Finding list" where
  "resourceBlock ord p blk =
     (if length (Labels blk) \<noteq> 2 then []
      else
        let resourceType = Labels blk ! 0;
            deprecated = deprecatedCheck p resourceType
        in case Body blk of
             BodyError d \<Rightarrow> deprecated
           | Attributes attrs \<Rightarrow>
               (case aclCheck p resourceType attrs of
                  None \<Rightarrow> deprecated
                | Some acl \<Rightarrow>
                    (case tagsCheck p attrs of
                       None \<Rightarrow> deprecated @ acl
                     | Some tags \<Rightarrow> deprecated @ acl @ tags @ secretsCheck ord p attrs)))"

fun defaultKeywords :: "string \<Rightarrow> string \<Rightarrow> string \<Rightarrow> string \<Rightarrow> string list \<Rightarrow> Finding list" where
  \<comment> \<open>the keyword loop of a variable's default\<close>
  "defaultKeywords p varName lowerName strVal [] = []"
| "defaultKeywords p varName lowerName strVal (kw # kws) =
     (if Contains lowerName kw \<and> strVal \<noteq> []
      then [\<lparr>File = p, Severity = Error,
             Message = ''Variable '' @ quoted varName
                       @ '' has a hardcoded default secret''\<rparr>]
      else defaultKeywords p varName lowerName strVal kws)"

definition variableBlock :: "string \<Rightarrow> block \<Rightarrow> Finding list" where
  "variableBlock p blk =
     (if length (Labels blk) \<noteq> 1 then []
      else
        let varName = Labels blk ! 0
        in case Body blk of
             BodyError d \<Rightarrow> []
           | Attributes attrs \<Rightarrow>
               (case map_of attrs ''default'' of
                  Some (Resolved (CtyString strVal)) \<Rightarrow>
                    defaultKeywords p varName (ToLower varName) strVal secretKeywords
                | _ \<Rightarrow> []))"

definition checkBlock :: "range_order \<Rightarrow> string \<Rightarrow> block \<Rightarrow> Finding list" where
  \<comment> \<open>the \<^verbatim>\<open>switch block.Type\<close>\<close>
  "checkBlock ord p blk =
     (if Type blk = ''resource'' then resourceBlock ord p blk
      else if Type blk = ''variable'' then variableBlock p blk
      else [])"

fun checkBlocks :: "run_orders \<Rightarrow> string \<Rightarrow> nat \<Rightarrow> block list \<Rightarrow> Finding list" where
  \<comment> \<open>\<^verbatim>\<open>for _, block := range content.Blocks\<close>, from the block of index \<open>i\<close>\<close>
  "checkBlocks run p i [] = []"
| "checkBlocks run p i (blk # blks) = checkBlock (run p [i]) p blk @ checkBlocks run p (Suc i) blks"

definition terraformFile :: "run_orders \<Rightarrow> string \<Rightarrow> hcl_file \<Rightarrow> Finding list" where
  \<comment> \<open>what the callback appends for one \<^verbatim>\<open>.tf\<close> file\<close>
  "terraformFile run p file =
     (case file of
        ParseError d \<Rightarrow>
          [\<lparr>File = p, Severity = Error, Message = ''Failed to parse HCL file: '' @ d\<rparr>]
      | ContentError d \<Rightarrow>
          [\<lparr>File = p, Severity = Error, Message = ''Failed to parse blocks: '' @ d\<rparr>]
      | Content blocks \<Rightarrow> checkBlocks run p 0 blocks)"

fun terraformVisit :: "run_orders \<Rightarrow> hcl_file walk_entry \<Rightarrow> Finding list
    \<Rightarrow> Finding list \<times> string option" where
  "terraformVisit run (WalkError p err) findings = (findings, Some err)"
| "terraformVisit run (Directory p) findings = (findings, None)"
| "terraformVisit run (RegularFile p file) findings =
     (if Ext p \<noteq> ''.tf'' then (findings, None)
      else (findings @ terraformFile run p file, None))"

definition terraformScan :: "run_orders \<Rightarrow> hcl_file walk_entry list \<Rightarrow> Finding list \<times> string option" where
  \<comment> \<open>\<^verbatim>\<open>terraform.Scan(path)\<close>, on the walk of \<^verbatim>\<open>path\<close>\<close>
  "terraformScan run walk = Walk (terraformVisit run) walk []"

section \<open>The task-list dialect (package ansible)\<close>

text \<open>
  The YAML library is a collaborator: the model takes the decoded plays. A decoded value
  (\<^verbatim>\<open>interface{}\<close>) is nil, a boolean, a string, an integer, a sequence or a mapping; no
  check inspects a number, and floating-point scalars are not represented.
\<close>

datatype yaml =
    YNull
  | YBool bool
  | YString string
  | YInt int
  | YSeq "yaml list"
  | YMap "(string \<times> yaml) list"

type_synonym Task = "(string \<times> yaml) list"

record Play =
  Hosts :: yaml
  Tasks :: "Task list"
  Vars :: "(string \<times> yaml) list"

datatype playbook =
    ReadError string    \<comment> \<open>\<^verbatim>\<open>ioutil.ReadFile\<close> fails\<close>
  | YamlError string    \<comment> \<open>\<^verbatim>\<open>yaml.Unmarshal\<close> fails\<close>
  | Plays "Play list"

definition deprecatedModules :: "(string \<times> string) list" where
  "deprecatedModules =
    [(''raw'',
      ''The '' @ quoted ''raw'' @ '' module is deprecated; consider using '' @ quoted ''command'' @ '' or other modules.''),
     (''command'',
      ''The '' @ quoted ''command'' @ '' module is sometimes discouraged in favor of more specific modules.''),
     (''shell'',
      ''The '' @ quoted ''shell'' @ '' module can be risky and is discouraged for idempotency reasons.''),
     (''ec2'',
      ''The '' @ quoted ''ec2'' @ '' module is deprecated; use '' @ quoted ''amazon.aws.ec2_instance'' @ '' from the Amazon AWS Collection instead.''),
     (''docker'',
      ''The '' @ quoted ''docker'' @ '' module is deprecated; use '' @ quoted ''community.docker.docker_container'' @ '' instead.''),
     (''git'',
      ''Older '' @ quoted ''git'' @ '' module versions might be deprecated; ensure you use the latest from '' @ quoted ''community.general.git'' @ ''.''),
     (''service'',
      ''The '' @ quoted ''service'' @ '' module is discouraged in favor of OS-specific modules like '' @ quoted ''systemd'' @ '' or '' @ quoted ''service_facts'' @ ''.''),
     (''yum'',
      ''The '' @ quoted ''yum'' @ '' module is discouraged for newer systems; use '' @ quoted ''dnf'' @ '' module on Fedora/RHEL 8+.''),
     (''apt'',
      ''The '' @ quoted ''apt'' @ '' module should be replaced with '' @ quoted ''apt_key'' @ '' and '' @ quoted ''apt_repository'' @ '' for finer control where applicable.''),
     (''setup'',
      ''Some facts gathered by '' @ quoted ''setup'' @ '' module may be deprecated; use '' @ quoted ''ansible_facts'' @ '' with targeted filters.''),
     (''iptables'',
      ''Deprecated in favor of '' @ quoted ''community.general.iptables'' @ '' or '' @ quoted ''ufw'' @ '' modules depending on your firewall system.''),
     (''firewalld'',
      ''Legacy '' @ quoted ''firewalld'' @ '' module replaced by '' @ quoted ''community.general.firewalld'' @ ''.''),
     (''user'',
      ''Deprecated options in '' @ quoted ''user'' @ '' module replaced with improved parameters in latest versions.'')]"

definition taskSecretKeywords :: "string list" where
  \<comment> \<open>the package variable \<^verbatim>\<open>secretKeywords\<close> of the task-list dialect\<close>
  "taskSecretKeywords = [''password'', ''secret'', ''token'', ''key'', ''pwd'']"

definition containsSecretKeyword :: "string \<Rightarrow> bool" where
  "containsSecretKeyword s = list_ex (\<lambda>kw. Contains (ToLower s) kw) taskSecretKeywords"

record scan_state =
  findings :: "Finding list"
  definedVars :: "(string \<times> bool) list"
  usedVars :: "(string \<times> bool) list"

definition append_finding :: "Finding \<Rightarrow> scan_state \<Rightarrow> scan_state" where
  "append_finding f st = st\<lparr>findings := findings st @ [f]\<rparr>"

definition noBecome :: "string \<Rightarrow> Finding" where
  "noBecome p = \<lparr>File = p, Severity = Warning,
     Message = ''Task missing '' @ quoted ''become'' @ '' field (no privilege escalation specified)''\<rparr>"

definition becomeFalse :: "string \<Rightarrow> Finding" where
  "becomeFalse p = \<lparr>File = p, Severity = Warning,
     Message = quoted ''become'' @ '' is false in task (possible privilege issue)''\<rparr>"

definition becomeCheck :: "string \<Rightarrow> Task \<Rightarrow> scan_state \<Rightarrow> scan_state" where
  "becomeCheck p task st =
     (case map_of task ''become'' of
        None \<Rightarrow> append_finding (noBecome p) st
      | Some (YBool val) \<Rightarrow> (if \<not> val then append_finding (becomeFalse p) st else st)
      | Some become \<Rightarrow> st)"

definition nameCheck :: "string \<Rightarrow> Task \<Rightarrow> scan_state \<Rightarrow> scan_state" where
  "nameCheck p task st =
     (case map_of task ''name'' of
        None \<Rightarrow> append_finding \<lparr>File = p, Severity = Warning,
                  Message = ''Task missing required field '' @ quoted ''name''\<rparr> st
      | Some v \<Rightarrow> st)"

definition moduleCheck :: "string \<Rightarrow> string \<Rightarrow> scan_state \<Rightarrow> scan_state" where
  \<comment> \<open>the body of \<^verbatim>\<open>for key := range task\<close>\<close>
  "moduleCheck p key st =
     (if key \<noteq> ''name'' \<and> key \<noteq> ''become'' \<and> key \<noteq> ''vars'' then
        (case map_of deprecatedModules key of
           Some msg \<Rightarrow> append_finding \<lparr>File = p, Severity = Warning,
             Message = ''Use of deprecated module '' @ quoted key @ '': '' @ msg\<rparr> st
         | None \<Rightarrow> st)
      else st)"

definition usedIn :: "string \<Rightarrow> string list" where
  \<comment> \<open>the names one string value records as used, in the order of the loop over \<^verbatim>\<open>parts[1:]\<close>\<close>
  "usedIn strVal =
     (if Contains strVal ''{{'' \<and> Contains strVal ''}}''
      then filter (\<lambda>varName. length varName > 0)
             (map (\<lambda>part. TrimSpace (hd (Split part ''}}''))) (tl (Split strVal ''{{'')))
      else [])"

definition attrSecret :: "string \<Rightarrow> string \<Rightarrow> Finding" where
  "attrSecret p attr = \<lparr>File = p, Severity = Error,
     Message = ''Possible hardcoded secret in attribute '' @ quoted attr\<rparr>"

definition attrCheck :: "string \<Rightarrow> string \<times> yaml \<Rightarrow> scan_state \<Rightarrow> scan_state" where
  \<comment> \<open>the body of \<^verbatim>\<open>for attr, val := range task\<close>\<close>
  "attrCheck p entry st =
     (let attr = fst entry; val = snd entry;
          st1 = (if containsSecretKeyword (ToLower attr) then
                   (case val of
                      YString strVal \<Rightarrow>
                        (if TrimSpace strVal \<noteq> [] then append_finding (attrSecret p attr) st else st)
                    | _ \<Rightarrow> st)
                 else st)
      in case val of
           YString strVal \<Rightarrow>
             st1\<lparr>usedVars := fold (\<lambda>varName used. AList.update varName True used)
                                 (usedIn strVal) (usedVars st1)\<rparr>
         | _ \<Rightarrow> st1)"

definition checkTask :: "range_order \<Rightarrow> string \<Rightarrow> Task \<Rightarrow> scan_state \<Rightarrow> scan_state" where
  "checkTask ord p task st =
     fold (attrCheck p) (rangeMap ord TaskAttrs task)
       (fold (moduleCheck p) (map fst (rangeMap ord TaskKeys task))
          (nameCheck p task (becomeCheck p task st)))"

fun checkTasks :: "run_orders \<Rightarrow> string \<Rightarrow> nat \<Rightarrow> nat \<Rightarrow> Task list \<Rightarrow> scan_state \<Rightarrow> scan_state" where
  \<comment> \<open>\<^verbatim>\<open>for _, task := range play.Tasks\<close> in the play of index \<open>i\<close>, from the task of index \<open>j\<close>\<close>
  "checkTasks run p i j [] st = st"
| "checkTasks run p i j (task # tasks) st =
     checkTasks run p i (Suc j) tasks (checkTask (run p [i, j]) p task st)"

definition checkPlay :: "run_orders \<Rightarrow> string \<Rightarrow> nat \<Rightarrow> Play \<Rightarrow> scan_state \<Rightarrow> scan_state" where
  \<comment> \<open>the body of \<^verbatim>\<open>for _, play := range plays\<close>, for the play of index \<open>i\<close>\<close>
  "checkPlay run p i play st =
     (let st1 = (if Hosts play = YNull
                 then append_finding \<lparr>File = p, Severity = Warning,
                        Message = ''Play missing required field '' @ quoted ''hosts''\<rparr> st
                 else st);
          st2 = st1\<lparr>definedVars := fold (\<lambda>varName defined. AList.update varName True defined)
                                      (map fst (rangeMap (run p [i]) PlayVars (Vars play)))
                                      (definedVars st1)\<rparr>
      in checkTasks run p i 0 (Tasks play) st2)"

fun checkPlays :: "run_orders \<Rightarrow> string \<Rightarrow> nat \<Rightarrow> Play list \<Rightarrow> scan_state \<Rightarrow> scan_state" where
  \<comment> \<open>\<^verbatim>\<open>for _, play := range plays\<close>, from the play of index \<open>i\<close>\<close>
  "checkPlays run p i [] st = st"
| "checkPlays run p i (play # plays) st = checkPlays run p (Suc i) plays (checkPlay run p i play st)"

definition unusedVariable :: "string \<Rightarrow> string \<Rightarrow> Finding" where
  "unusedVariable p varName = \<lparr>File = p, Severity = Warning,
     Message = ''Variable '' @ quoted varName @ '' defined but not used''\<rparr>"

definition unusedCheck :: "range_order \<Rightarrow> string \<Rightarrow> scan_state \<Rightarrow> scan_state" where
  \<comment> \<open>\<^verbatim>\<open>for varName := range definedVars\<close>; a missing key of \<^verbatim>\<open>usedVars\<close> reads as false\<close>
  "unusedCheck ord p st =
     fold (\<lambda>varName st'. if map_of (usedVars st') varName \<noteq> Some True
                          then append_finding (unusedVariable p varName) st' else st')
       (map fst (rangeMap ord DefinedVars (definedVars st))) st"

definition ansibleFile :: "run_orders \<Rightarrow> string \<Rightarrow> playbook \<Rightarrow> Finding list" where
  \<comment> \<open>what the callback appends for one \<^verbatim>\<open>.yml\<close> or \<^verbatim>\<open>.yaml\<close> file\<close>
  "ansibleFile run p file =
     (case file of
        ReadError e \<Rightarrow>
          [\<lparr>File = p, Severity = Error, Message = ''Failed to read file: '' @ e\<rparr>]
      | YamlError e \<Rightarrow>
          [\<lparr>File = p, Severity = Error, Message = ''YAML parse error: '' @ e\<rparr>]
      | Plays plays \<Rightarrow>
          findings (unusedCheck (run p []) p
            (checkPlays run p 0 plays \<lparr>findings = [], definedVars = [], usedVars = []\<rparr>)))"

fun ansibleVisit :: "run_orders \<Rightarrow> playbook walk_entry \<Rightarrow> Finding list
    \<Rightarrow> Finding list \<times> string option" where
  "ansibleVisit run (WalkError p err) fs = (fs, Some err)"
| "ansibleVisit run (Directory p) fs = (fs, None)"
| "ansibleVisit run (RegularFile p file) fs =
     (let ext = Ext p in
      if ext \<noteq> ''.yml'' \<and> ext \<noteq> ''.yaml'' then (fs, None)
      else (fs @ ansibleFile run p file, None))"

definition ansibleScan :: "run_orders \<Rightarrow> playbook walk_entry list \<Rightarrow> Finding list \<times> string option" where
  \<comment> \<open>\<^verbatim>\<open>ansible.Scan(path)\<close>, on the walk of \<^verbatim>\<open>path\<close>\<close>
  "ansibleScan run walk = Walk (ansibleVisit run) walk []"

section \<open>The manifest dialect (internal/puppet/puppet.go)\<close>

text \<open>
  The external linter and the file system are collaborators: the model takes, for each
  manifest, the outcome of running \<^verbatim>\<open>puppet-lint\<close> on it (whether \<^verbatim>\<open>cmd.Run()\<close> returns an
  error, the captured standard output and standard error) and the outcome of reading it.
\<close>

record lint_run =
  run_failed :: bool
  stdout :: string
  stderr :: string

datatype read_result =
    ReadFailed string
  | ReadOk string

type_synonym manifest = "lint_run \<times> read_result"

definition puppetDeprecatedResources :: "string list" where
  \<comment> \<open>\<^verbatim>\<open>deprecatedResources\<close> of the manifest dialect\<close>
  "puppetDeprecatedResources =
    [''execpipe'', ''database'', ''concat::fragment'', ''filebucket'', ''nagios_service'',
     ''package'', ''resources'', ''vcsrepo'', ''apache::vhost'', ''mysql::db'',
     ''ssh_authorized_key'']"

definition disallowedParams :: "string list" where
  "disallowedParams =
    [''force_destroy'', ''skip_final_snapshot'', ''public_ip'', ''allow_remote_access'',
     ''password'', ''secret_key'', ''access_key'', ''enable_http_access'', ''insecure_ssl'',
     ''admin_password'']"

subsection \<open>The three regular expressions\<close>

definition newline :: char where
  "newline = CHR 0x0A"

definition reSpace :: "char \<Rightarrow> bool" where
  \<comment> \<open>\<^verbatim>\<open>\s\<close>: tab, line feed, form feed, carriage return, space\<close>
  "reSpace c = (c \<in> set [CHR 0x09, CHR 0x0A, CHR 0x0C, CHR 0x0D, CHR 0x20])"

definition reWord :: "char \<Rightarrow> bool" where
  \<comment> \<open>\<^verbatim>\<open>\w\<close>: a digit, a letter or the underscore\<close>
  "reWord c =
     (c \<in> set ''0123456789ABCDEFGHIJKLMNOPQRSTUVWXYZ_abcdefghijklmnopqrstuvwxyz'')"

fun afterNewlines :: "string \<Rightarrow> string list" where
  \<comment> \<open>the suffixes of a text that follow a line feed\<close>
  "afterNewlines [] = []"
| "afterNewlines (c # cs) = (if c = newline then cs # afterNewlines cs else afterNewlines cs)"

definition classDeclAt :: "string \<Rightarrow> bool" where
  \<comment> \<open>\<^verbatim>\<open>\s*class\s+[\w:]+\<close> matches a prefix of \<open>s\<close>\<close>
  "classDeclAt s =
     (let r = dropWhile reSpace s in
      prefix ''class'' r \<and>
      (let r2 = drop 5 r in
       r2 \<noteq> [] \<and> reSpace (hd r2) \<and>
       (let r3 = dropWhile reSpace r2 in
        r3 \<noteq> [] \<and> (reWord (hd r3) \<or> hd r3 = CHR '':''))))"

definition classDeclRegex :: "string \<Rightarrow> bool" where
  \<comment> \<open>\<^verbatim>\<open>classDeclRegex.MatchString\<close>, \<^verbatim>\<open>(?m)^\s*class\s+[\w:]+\<close>: \<^verbatim>\<open>^\<close> is the start of the
      text or of a line\<close>
  "classDeclRegex content = list_ex classDeclAt (content # afterNewlines content)"

definition isQuote :: "char \<Rightarrow> bool" where
  "isQuote c = (c = CHR 0x22 \<or> c = CHR 0x27)"

definition hardcodedSecretAt :: "string \<Rightarrow> bool" where
  \<comment> \<open>\<^verbatim>\<open>(?i)password\s*=>\s*["'].*["']\<close> matches a prefix of \<open>s\<close>; \<^verbatim>\<open>.\<close> is any byte but a
      line feed\<close>
  "hardcodedSecretAt s =
     (ToLower (take 8 s) = ''password'' \<and>
      (let r = dropWhile reSpace (drop 8 s) in
       prefix ''=>'' r \<and>
       (let r2 = dropWhile reSpace (drop 2 r) in
        r2 \<noteq> [] \<and> isQuote (hd r2) \<and>
        list_ex isQuote (takeWhile (\<lambda>c. c \<noteq> newline) (tl r2)))))"

definition hardcodedSecretRegex :: "string \<Rightarrow> bool" where
  \<comment> \<open>\<^verbatim>\<open>hardcodedSecretRegex.FindStringIndex(content) != nil\<close>\<close>
  "hardcodedSecretRegex content = list_ex hardcodedSecretAt (suffixes content)"

definition trailingWhitespaceRegex :: "string \<Rightarrow> bool" where
  \<comment> \<open>\<^verbatim>\<open>trailingWhitespaceRegex.MatchString\<close>, \<^verbatim>\<open>\s+$\<close>: \<^verbatim>\<open>$\<close> is the end of the text\<close>
  "trailingWhitespaceRegex line = (line \<noteq> [] \<and> reSpace (last line))"

subsection \<open>The linter bridge\<close>

definition MaxScanTokenSize :: nat where
  \<comment> \<open>\<^verbatim>\<open>bufio.MaxScanTokenSize\<close>, the buffer limit of a \<^verbatim>\<open>bufio.Scanner\<close>\<close>
  "MaxScanTokenSize = 64 * 1024"

definition dropCR :: "string \<Rightarrow> string" where
  "dropCR line = (if line \<noteq> [] \<and> last line = CHR 0x0D then butlast line else line)"

fun scanLines :: "string \<Rightarrow> string \<Rightarrow> string list \<times> string option" where
  \<comment> \<open>the tokens of a \<^verbatim>\<open>bufio.Scanner\<close> with the default split function (\<^verbatim>\<open>ScanLines\<close>) and
      \<^verbatim>\<open>scanner.Err()\<close>: \<open>cur\<close> is the line read so far. A line that fills the buffer before
      its line feed stops the scan with \<^verbatim>\<open>ErrTooLong\<close>.\<close>
  "scanLines cur [] =
     (if cur = [] then ([], None)
      else if length cur \<ge> MaxScanTokenSize then ([], Some ''bufio.Scanner: token too long'')
      else ([dropCR cur], None))"
| "scanLines cur (c # cs) =
     (if c = newline then
        (if length cur \<ge> MaxScanTokenSize then ([], Some ''bufio.Scanner: token too long'')
         else (case scanLines [] cs of (ls, e) \<Rightarrow> (dropCR cur # ls, e)))
      else scanLines (cur @ [c]) cs)"

definition lintWarning :: "string \<Rightarrow> string \<Rightarrow> Finding" where
  "lintWarning filePath line = \<lparr>File = filePath, Severity = Warning, Message = line\<rparr>"

definition runPuppetLint :: "string \<Rightarrow> lint_run \<Rightarrow> Finding list \<times> string option" where
  "runPuppetLint filePath run =
     (if run_failed run \<and> length (stdout run) = 0
      then ([], Some (TrimSpace (stderr run)))
      else
        (case scanLines [] (stdout run) of
           (ls, Some scanErr) \<Rightarrow>
             (map (lintWarning filePath) ls,
              Some (''error parsing puppet-lint output: '' @ scanErr))
         | (ls, None) \<Rightarrow> (map (lintWarning filePath) ls, None)))"

subsection \<open>The scan of one manifest\<close>

definition lintCheck :: "string \<Rightarrow> lint_run \<Rightarrow> Finding list" where
  \<comment> \<open>step 1 of the callback\<close>
  "lintCheck p run =
     (case runPuppetLint p run of
        (puppetLintFindings, Some err) \<Rightarrow>
          \<lparr>File = p, Severity = Error, Message = ''puppet-lint error: '' @ err\<rparr>
            # puppetLintFindings
      | (puppetLintFindings, None) \<Rightarrow> puppetLintFindings)"

definition deprecatedResource :: "string \<Rightarrow> string \<Rightarrow> Finding" where
  "deprecatedResource p dr = \<lparr>File = p, Severity = Warning,
     Message = ''Deprecated resource type '' @ quoted dr @ '' used''\<rparr>"

definition noClassDecl :: "string \<Rightarrow> Finding" where
  "noClassDecl p = \<lparr>File = p, Severity = Warning,
     Message = ''No class declaration found in manifest''\<rparr>"

definition hardcodedPassword :: "string \<Rightarrow> Finding" where
  "hardcodedPassword p = \<lparr>File = p, Severity = Error,
     Message = ''Possible hardcoded password detected''\<rparr>"

definition disallowedParam :: "string \<Rightarrow> string \<Rightarrow> Finding" where
  "disallowedParam p param = \<lparr>File = p, Severity = Warning,
     Message = ''Disallowed parameter '' @ quoted param @ '' used''\<rparr>"

fun trailingWhitespace :: "string \<Rightarrow> nat \<Rightarrow> string list \<Rightarrow> Finding list" where
  \<comment> \<open>\<^verbatim>\<open>for i, line := range lines\<close>, from index \<open>i\<close>\<close>
  "trailingWhitespace p i [] = []"
| "trailingWhitespace p i (line # lines) =
     (if trailingWhitespaceRegex line
      then \<lparr>File = p, Severity = Warning,
             Message = ''Trailing whitespace on line '' @ decimal (i + 1)\<rparr>
           # trailingWhitespace p (i + 1) lines
      else trailingWhitespace p (i + 1) lines)"

definition staticChecks :: "string \<Rightarrow> string \<Rightarrow> Finding list" where
  \<comment> \<open>steps 3 to 7 of the callback\<close>
  "staticChecks p content =
     map (deprecatedResource p) (filter (\<lambda>dr. Contains content dr) puppetDeprecatedResources)
     @ (if \<not> classDeclRegex content then [noClassDecl p] else [])
     @ (if hardcodedSecretRegex content then [hardcodedPassword p] else [])
     @ trailingWhitespace p 0 (Split content [newline])
     @ map (disallowedParam p) (filter (\<lambda>param. Contains content param) disallowedParams)"

definition puppetFile :: "string \<Rightarrow> manifest \<Rightarrow> Finding list" where
  \<comment> \<open>what the callback appends for one \<^verbatim>\<open>.pp\<close> file\<close>
  "puppetFile p file =
     lintCheck p (fst file)
     @ (case snd file of
          ReadFailed e \<Rightarrow>
            [\<lparr>File = p, Severity = Error, Message = ''failed to read file: '' @ e\<rparr>]
        | ReadOk content \<Rightarrow> staticChecks p content)"

fun puppetVisit :: "manifest walk_entry \<Rightarrow> Finding list \<Rightarrow> Finding list \<times> string option" where
  "puppetVisit (WalkError p err) fs = (fs, Some err)"
| "puppetVisit (Directory p) fs = (fs, None)"
| "puppetVisit (RegularFile p file) fs =
     (if Ext p \<noteq> ''.pp'' then (fs, None) else (fs @ puppetFile p file, None))"

definition puppetScan :: "manifest walk_entry list \<Rightarrow> Finding list \<times> string option" where
  \<comment> \<open>\<^verbatim>\<open>puppet.Scan(path)\<close>, on the walk of \<^verbatim>\<open>path\<close>\<close>
  "puppetScan walk = Walk puppetVisit walk []"

section \<open>Notions used to state the properties\<close>

definition contribution :: "(string \<Rightarrow> 'a \<Rightarrow> Finding list) \<Rightarrow> 'a walk_entry \<Rightarrow> Finding list" where
  \<comment> \<open>the findings one call of the callback appends, when a file gives \<open>g p file\<close>\<close>
  "contribution g e = (case e of RegularFile p file \<Rightarrow> g p file | _ \<Rightarrow> [])"

definition visits_like :: "('a walk_entry \<Rightarrow> Finding list \<Rightarrow> Finding list \<times> string option)
    \<Rightarrow> (string \<Rightarrow> 'a \<Rightarrow> Finding list) \<Rightarrow> bool" where
  "visits_like fn g =
     (\<forall>e fs. fn e fs = (case e of WalkError p err \<Rightarrow> (fs, Some err)
                                | _ \<Rightarrow> (fs @ contribution g e, None)))"

definition terraformEntry :: "run_orders \<Rightarrow> string \<Rightarrow> hcl_file \<Rightarrow> Finding list" where
  "terraformEntry run p file = (if Ext p \<noteq> ''.tf'' then [] else terraformFile run p file)"

definition ansibleEntry :: "run_orders \<Rightarrow> string \<Rightarrow> playbook \<Rightarrow> Finding list" where
  "ansibleEntry run p file =
     (if Ext p \<noteq> ''.yml'' \<and> Ext p \<noteq> ''.yaml'' then [] else ansibleFile run p file)"

definition puppetEntry :: "string \<Rightarrow> manifest \<Rightarrow> Finding list" where
  "puppetEntry p file = (if Ext p \<noteq> ''.pp'' then [] else puppetFile p file)"

definition no_file_with_ext :: "string list \<Rightarrow> 'a walk_entry list \<Rightarrow> bool" where
  \<comment> \<open>the walk meets no file (an entry that is not a directory) with one of the extensions\<close>
  "no_file_with_ext exts walk =
     list_all (\<lambda>e. case e of RegularFile p file \<Rightarrow> Ext p \<notin> set exts | _ \<Rightarrow> True) walk"

definition usedSet :: "scan_state \<Rightarrow> string set" where
  \<comment> \<open>the names \<open>n\<close> with \<^verbatim>\<open>usedVars[n]\<close> true\<close>
  "usedSet st = {n. map_of (usedVars st) n = Some True}"

definition becomeFindings :: "string \<Rightarrow> Task \<Rightarrow> Finding list" where
  "becomeFindings p task =
     (case map_of task ''become'' of
        None \<Rightarrow> [noBecome p]
      | Some (YBool val) \<Rightarrow> (if \<not> val then [becomeFalse p] else [])
      | Some become \<Rightarrow> [])"

definition nameFindings :: "string \<Rightarrow> Task \<Rightarrow> Finding list" where
  "nameFindings p task =
     (case map_of task ''name'' of
        None \<Rightarrow> [\<lparr>File = p, Severity = Warning,
                   Message = ''Task missing required field '' @ quoted ''name''\<rparr>]
      | Some v \<Rightarrow> [])"

definition moduleFindings :: "string \<Rightarrow> string \<Rightarrow> Finding list" where
  "moduleFindings p key =
     (if key \<noteq> ''name'' \<and> key \<noteq> ''become'' \<and> key \<noteq> ''vars'' then
        (case map_of deprecatedModules key of
           Some msg \<Rightarrow> [\<lparr>File = p, Severity = Warning,
             Message = ''Use of deprecated module '' @ quoted key @ '': '' @ msg\<rparr>]
         | None \<Rightarrow> [])
      else [])"

definition attrFindings :: "string \<Rightarrow> string \<times> yaml \<Rightarrow> Finding list" where
  "attrFindings p entry =
     (case snd entry of
        YString strVal \<Rightarrow>
          (if containsSecretKeyword (ToLower (fst entry)) \<and> TrimSpace strVal \<noteq> []
           then [attrSecret p (fst entry)] else [])
      | _ \<Rightarrow> [])"

definition attrUsed :: "string \<times> yaml \<Rightarrow> string list" where
  "attrUsed entry = (case snd entry of YString strVal \<Rightarrow> usedIn strVal | _ \<Rightarrow> [])"

definition taskFindings :: "range_order \<Rightarrow> string \<Rightarrow> Task \<Rightarrow> Finding list" where
  \<comment> \<open>the findings one task adds, in the order of the checks\<close>
  "taskFindings ord p task =
     becomeFindings p task @ nameFindings p task
     @ concat (map (moduleFindings p) (map fst (rangeMap ord TaskKeys task)))
     @ concat (map (attrFindings p) (rangeMap ord TaskAttrs task))"






definition taskUsedNames :: "Task \<Rightarrow> string set" where
  \<comment> \<open>the names recorded from the string values of the attributes of one task\<close>
  "taskUsedNames task = (\<Union>entry\<in>{(attr, val). map_of task attr = Some val}. set (attrUsed entry))"

definition privilegeFinding :: "Finding \<Rightarrow> bool" where
  \<comment> \<open>a finding of the privilege-escalation check: it carries one of the check's two messages\<close>
  "privilegeFinding f =
     (Message f = ''Task missing '' @ quoted ''become''
                  @ '' field (no privilege escalation specified)'' \<or>
      Message f = quoted ''become'' @ '' is false in task (possible privilege issue)'')"


definition usedNames :: "Play list \<Rightarrow> string set" where
  \<comment> \<open>the names recorded from the string values of the attributes of all tasks of a file\<close>
  "usedNames plays = (\<Union>play\<in>set plays. \<Union>task\<in>set (Tasks play). taskUsedNames task)"

definition outputLines :: "string \<Rightarrow> string list" where
  \<comment> \<open>the lines of a text: the pieces between line feeds, the piece after the last line feed
      only when it is not empty, each without a carriage return at its end\<close>
  "outputLines out =
     map dropCR (let pieces = Split out [newline]
                 in if last pieces = [] then butlast pieces else pieces)"

section \<open>The walk\<close>

lemma visit_step:
  assumes "visits_like fn g" and "\<forall>p err. e \<noteq> WalkError p err"
  shows "fn e fs = (fs @ contribution g e, None)"
  using assms by (cases e) (auto simp: visits_like_def)

lemma walk_fails_Cons:
  "walk_fails (e # es) \<longleftrightarrow> (\<exists>p err. e = WalkError p err) \<or> walk_fails es"
  by (cases e) (simp_all add: walk_fails_def)

lemma walk_fails_append: "walk_fails (xs @ ys) \<longleftrightarrow> walk_fails xs \<or> walk_fails ys"
  by (simp add: walk_fails_def list_ex_iff) blast

lemma Walk_append:
  assumes "visits_like fn g" and "\<not> walk_fails pre"
  shows "Walk fn (pre @ rest) acc = Walk fn rest (acc @ concat (map (contribution g) pre))"
  using assms(2)
proof (induction pre arbitrary: acc)
  case Nil
  then show ?case by simp
next
  case (Cons e es)
  from Cons.prems have e: "\<forall>p err. e \<noteq> WalkError p err" and es: "\<not> walk_fails es"
    by (auto simp: walk_fails_Cons)
  from visit_step [OF assms(1) e] Cons.IH [OF es] show ?case by simp
qed

lemma Walk_no_error:
  assumes "visits_like fn g" and "\<not> walk_fails es"
  shows "Walk fn es acc = (acc @ concat (map (contribution g) es), None)"
  using Walk_append [OF assms, of "[]" acc] by simp




lemma terraformVisit_like: "visits_like (terraformVisit ord) (terraformEntry ord)"
  unfolding visits_like_def
  by (auto simp: contribution_def terraformEntry_def split: walk_entry.splits)

lemma ansibleVisit_like: "visits_like (ansibleVisit ord) (ansibleEntry ord)"
  unfolding visits_like_def
  by (auto simp: contribution_def ansibleEntry_def Let_def split: walk_entry.splits)

lemma puppetVisit_like: "visits_like puppetVisit puppetEntry"
  unfolding visits_like_def
  by (auto simp: contribution_def puppetEntry_def split: walk_entry.splits)

lemma no_file_contribution:
  assumes "no_file_with_ext exts walk"
    and "\<And>p file. Ext p \<notin> set exts \<Longrightarrow> g p file = []"
  shows "concat (map (contribution g) walk) = []"
  using assms
  by (induction walk)
     (auto simp: no_file_with_ext_def contribution_def split: walk_entry.splits)

lemma Walk_contains:
  assumes "visits_like fn g" "\<not> walk_fails walk" "RegularFile p file \<in> set walk"
  shows "set (g p file) \<subseteq> set (fst (Walk fn walk []))"
proof -
  have "contribution g (RegularFile p file) = g p file" by (simp add: contribution_def)
  with assms(3) have "set (g p file) \<subseteq> set (concat (map (contribution g) walk))"
    by force
  then show ?thesis by (simp add: Walk_no_error [OF assms(1,2)])
qed


section \<open>Iteration over a map\<close>



lemma keys_distinct: "distinct (keys m)"
  by (simp add: keys_def)








lemma mset_concat_map_cong:
  "(\<And>x. x \<in> set xs \<Longrightarrow> mset (f x) = mset (g x)) \<Longrightarrow>
   mset (concat (map f xs)) = mset (concat (map g xs))"
  by (induction xs) auto







section \<open>The checks of a resource block\<close>
















section \<open>The state of the task-list scan\<close>

lemma append_finding_simps [simp]:
  "findings (append_finding f st) = findings st @ [f]"
  "definedVars (append_finding f st) = definedVars st"
  "usedVars (append_finding f st) = usedVars st"
  by (simp_all add: append_finding_def)

lemma usedSet_append_finding [simp]: "usedSet (append_finding f st) = usedSet st"
  by (simp add: usedSet_def)


lemma usedSet_definedVars_update [simp]: "usedSet (st\<lparr>definedVars := d\<rparr>) = usedSet st"
  by (simp add: usedSet_def)





























lemmas eval_ansible = taskFindings_def becomeFindings_def nameFindings_def moduleFindings_def
  attrFindings_def attrUsed_def noBecome_def becomeFalse_def attrSecret_def privilegeFinding_def
  deprecatedModules_def containsSecretKeyword_def taskSecretKeywords_def usedIn_def Split_def
  TrimSpace_def isSpace_def rangeMap_def keys_def source_order_def reverse_order_def















section \<open>The linter bridge and the password pattern\<close>

lemma splitFrom_not_Nil: "splitFrom sep cur s \<noteq> []"
  by (induction sep cur s rule: splitFrom.induct) auto

lemma splitFrom_newline_Cons:
  "splitFrom [newline] cur (c # cs) =
     (if c = newline then cur # splitFrom [newline] [] cs else splitFrom [newline] (cur @ [c]) cs)"
  by simp

lemma scanLines_short:
  assumes "\<forall>l\<in>set (splitFrom [newline] cur s). length l < MaxScanTokenSize"
  shows "scanLines cur s =
     (map dropCR (let pieces = splitFrom [newline] cur s
                  in if last pieces = [] then butlast pieces else pieces), None)"
  using assms
proof (induction s arbitrary: cur)
  case Nil
  then show ?case by simp
next
  case (Cons c cs)
  show ?case
  proof (cases "c = newline")
    case True
    with Cons.prems have cur: "length cur < MaxScanTokenSize"
      and rest: "\<forall>l\<in>set (splitFrom [newline] [] cs). length l < MaxScanTokenSize"
      by (simp_all add: splitFrom_newline_Cons del: splitFrom.simps)
    from Cons.IH [OF rest] cur True show ?thesis
      using splitFrom_not_Nil [of "[newline]" "[]" cs]
      by (simp add: splitFrom_newline_Cons Let_def del: splitFrom.simps)
  next
    case False
    with Cons.prems have "\<forall>l\<in>set (splitFrom [newline] (cur @ [c]) cs). length l < MaxScanTokenSize"
      by (simp add: splitFrom_newline_Cons del: splitFrom.simps)
    from Cons.IH [OF this] False show ?thesis
      by (simp add: splitFrom_newline_Cons del: splitFrom.simps)
  qed
qed

lemma scanLines_no_newline: "newline \<notin> set s \<Longrightarrow> scanLines cur s = scanLines (cur @ s) []"
  by (induction s arbitrary: cur) auto

lemma splitFrom_no_newline: "newline \<notin> set s \<Longrightarrow> splitFrom [newline] cur s = [cur @ s]"
  by (induction s arbitrary: cur) auto

lemma reSpace_not_eq: "reSpace c \<Longrightarrow> c \<noteq> CHR ''=''"
  by (auto simp: reSpace_def)

lemma isQuote_not_space: "isQuote c \<Longrightarrow> \<not> reSpace c"
  by (auto simp: isQuote_def reSpace_def)

lemma isQuote_not_newline: "isQuote c \<Longrightarrow> c \<noteq> newline"
  by (auto simp: isQuote_def newline_def)

lemma hardcodedSecretAt_assignment:
  assumes "\<forall>c\<in>set ws1. reSpace c" "\<forall>c\<in>set ws2. reSpace c" "isQuote q" "isQuote q'"
    "newline \<notin> set val"
  shows "hardcodedSecretAt (''password'' @ ws1 @ ''=>'' @ ws2 @ [q] @ val @ [q'] @ post)"
proof -
  have 1: "dropWhile reSpace (ws1 @ ''=>'' @ ws2 @ [q] @ val @ [q'] @ post)
      = ''=>'' @ ws2 @ [q] @ val @ [q'] @ post"
    using assms(1) by (simp add: dropWhile_append2 reSpace_def)
  have 2: "dropWhile reSpace (ws2 @ [q] @ val @ [q'] @ post) = [q] @ val @ [q'] @ post"
    using assms(2) isQuote_not_space [OF assms(3)] by (simp add: dropWhile_append2)
  have 3: "takeWhile (\<lambda>c. c \<noteq> newline) (val @ [q'] @ post)
      = val @ q' # takeWhile (\<lambda>c. c \<noteq> newline) post"
  proof -
    have "\<And>c. c \<in> set val \<Longrightarrow> c \<noteq> newline" using assms(5) by auto
    then show ?thesis
      using isQuote_not_newline [OF assms(4)] by (simp add: takeWhile_append2)
  qed
  show ?thesis
    unfolding hardcodedSecretAt_def
    using assms(3,4) isQuote_not_space [OF assms(3)]
    by (simp add: 1 [simplified] 2 [simplified] 3 [simplified] ToLower_def toLowerChar_def Let_def)
qed

lemma hardcodedSecretRegex_assignment:
  assumes "\<forall>c\<in>set ws1. reSpace c" "\<forall>c\<in>set ws2. reSpace c" "isQuote q" "isQuote q'"
    "newline \<notin> set val"
  shows "hardcodedSecretRegex (pre @ ''password'' @ ws1 @ ''=>'' @ ws2 @ [q] @ val @ [q'] @ post)"
proof -
  have "''password'' @ ws1 @ ''=>'' @ ws2 @ [q] @ val @ [q'] @ post
      \<in> set (suffixes (pre @ ''password'' @ ws1 @ ''=>'' @ ws2 @ [q] @ val @ [q'] @ post))"
    by (simp only: in_set_suffixes suffix_def) blast
  with hardcodedSecretAt_assignment [OF assms] show ?thesis
    unfolding hardcodedSecretRegex_def list_ex_iff by blast
qed

section \<open>The names a template records\<close>

text \<open>
  A reference \<^verbatim>\<open>{{ name }}\<close> in a string value, with no brace before it and none inside it,
  records the trimmed text between the delimiters as used.
\<close>

lemma splitFrom_skip:
  assumes "sep = a # sep'" "a \<notin> set pre"
  shows "splitFrom sep cur (pre @ rest) = splitFrom sep (cur @ pre) rest"
  using assms(2)
proof (induction pre arbitrary: cur)
  case Nil
  then show ?case by simp
next
  case (Cons c pre)
  then have "\<not> prefix sep (c # pre @ rest)" using assms(1) by auto
  with Cons show ?case by simp
qed

lemma splitFrom_at_sep:
  "sep \<noteq> [] \<Longrightarrow> splitFrom sep cur (sep @ rest) = cur # splitFrom sep [] rest"
  by (cases sep) simp_all

lemma splitFrom_hd_prefix: "prefix cur (hd (splitFrom sep cur s))"
proof (induction sep cur s rule: splitFrom.induct)
  case (1 sep cur)
  then show ?case by simp
next
  case (2 sep cur c cs)
  show ?case
  proof (cases "sep \<noteq> [] \<and> prefix sep (c # cs)")
    case True
    then show ?thesis by simp
  next
    case False
    with 2(2) have "prefix (cur @ [c]) (hd (splitFrom sep cur (c # cs)))" by auto
    then show ?thesis by (meson append_prefixD)
  qed
qed

lemma usedIn_template:
  assumes "CHR ''{'' \<notin> set pre" "CHR ''{'' \<notin> set name" "CHR ''}'' \<notin> set name"
    and "TrimSpace name \<noteq> []"
  shows "TrimSpace name \<in> set (usedIn (pre @ ''{{'' @ name @ ''}}'' @ post))"
proof -
  let ?s = "pre @ ''{{'' @ name @ ''}}'' @ post"
  have c1: "Contains ?s ''{{''" unfolding Contains_def by (rule sublist_appendI)
  have "sublist ''}}'' ((pre @ ''{{'' @ name) @ ''}}'' @ post)" by (rule sublist_appendI)
  then have c2: "Contains ?s ''}}''" by (simp add: Contains_def)
  have "splitFrom ''{{'' [] ?s = splitFrom ''{{'' pre (''{{'' @ name @ ''}}'' @ post)"
    using splitFrom_skip [of "''{{''" "CHR ''{''" "''{''" pre "[]"] assms(1) by simp
  also have "\<dots> = pre # splitFrom ''{{'' [] (name @ ''}}'' @ post)"
    by (rule splitFrom_at_sep) simp
  finally have tl: "tl (Split ?s ''{{'') = splitFrom ''{{'' [] ((name @ ''}}'') @ post)"
    by (simp add: Split_def)
  have "CHR ''{'' \<notin> set (name @ ''}}'')" using assms(2) by simp
  then have "splitFrom ''{{'' [] ((name @ ''}}'') @ post) = splitFrom ''{{'' (name @ ''}}'') post"
    using splitFrom_skip [of "''{{''" "CHR ''{''" "''{''" "name @ ''}}''" "[]" post] by simp
  with tl have tl': "tl (Split ?s ''{{'') = splitFrom ''{{'' (name @ ''}}'') post" by simp
  obtain r where part: "hd (splitFrom ''{{'' (name @ ''}}'') post) = (name @ ''}}'') @ r"
    using splitFrom_hd_prefix [of "name @ ''}}''" "''{{''" post] by (auto simp: prefix_def)
  have "splitFrom ''}}'' [] (name @ ''}}'' @ r) = splitFrom ''}}'' name (''}}'' @ r)"
    using splitFrom_skip [of "''}}''" "CHR ''}''" "''}''" name "[]"] assms(3) by simp
  also have "\<dots> = name # splitFrom ''}}'' [] r"
    by (rule splitFrom_at_sep) simp
  finally have "hd (Split ((name @ ''}}'') @ r) ''}}'') = name"
    by (simp add: Split_def)
  with part have "TrimSpace (hd (Split (hd (tl (Split ?s ''{{''))) ''}}'')) = TrimSpace name"
    by (simp only: tl')
  moreover have "hd (tl (Split ?s ''{{'')) \<in> set (tl (Split ?s ''{{''))"
    unfolding tl' by (rule hd_in_set) (rule splitFrom_not_Nil)
  ultimately have "TrimSpace name
      \<in> set (map (\<lambda>part. TrimSpace (hd (Split part ''}}''))) (tl (Split ?s ''{{'')))"
    by (metis (no_types, lifting) image_eqI list.set_map)
  with assms(4) c1 c2 show ?thesis
    unfolding usedIn_def by (simp only: if_True simp_thms set_filter) simp
qed

lemma referenced_name_is_used:
  assumes "play \<in> set plays" "task \<in> set (Tasks play)"
    and "map_of task attr = Some (YString (pre @ ''{{'' @ name @ ''}}'' @ post))"
    and "CHR ''{'' \<notin> set pre" "CHR ''{'' \<notin> set name" "CHR ''}'' \<notin> set name"
    and "TrimSpace name \<noteq> []"
  shows "TrimSpace name \<in> usedNames plays"
proof -
  have "TrimSpace name
      \<in> set (attrUsed (attr, YString (pre @ ''{{'' @ name @ ''}}'' @ post)))"
    using usedIn_template [OF assms(4-7)] by (simp add: attrUsed_def)
  with assms(1-3) show ?thesis
    unfolding usedNames_def taskUsedNames_def by blast
qed


section \<open>Fatal and recorded failures\<close>



section \<open>Two scans of the same tree\<close>




section \<open>The secret keywords\<close>




section \<open>An attribute that cannot be resolved\<close>


section \<open>Privilege escalation\<close>



section \<open>The sample file with a public bucket\<close>



section \<open>The lines of the linter\<close>

text \<open>
  C7, as stated, fails: a line of the linter's output that fills the scanner's buffer (64 KiB)
  before its line feed stops the scan of the output. The line gives no \<^verbatim>\<open>Warning\<close>; the bridge
  returns the scanner's error, and the scan of the manifest records it as an \<^verbatim>\<open>Error\<close> finding.
\<close>

theorem long_line_is_no_warning:
  "outputLines (replicate 70000 (CHR ''a'')) = [replicate 70000 (CHR ''a'')] \<and>
   lintCheck ''site.pp'' \<lparr>run_failed = False, stdout = replicate 70000 (CHR ''a''), stderr = []\<rparr>
     = [\<lparr>File = ''site.pp'', Severity = Error,
         Message = ''puppet-lint error: error parsing puppet-lint output: bufio.Scanner: token too long''\<rparr>]"
proof -
  have n: "newline \<notin> set (replicate 70000 (CHR ''a''))"
    by (simp add: newline_def)
  have "scanLines [] (replicate 70000 (CHR ''a''))
      = ([], Some ''bufio.Scanner: token too long'')"
    by (simp add: scanLines_no_newline [OF n] MaxScanTokenSize_def)
  moreover have "outputLines (replicate 70000 (CHR ''a'')) = [replicate 70000 (CHR ''a'')]"
    by (simp add: outputLines_def Split_def splitFrom_no_newline [OF n] dropCR_def)
  ultimately show ?thesis
    by (simp add: lintCheck_def runPuppetLint_def)
qed

text \<open>
  C7, amended. When every line of the linter's standard output is shorter than the scanner's
  buffer (\<open>MaxScanTokenSize\<close>, 64 KiB), the bridge turns each line into exactly one \<^verbatim>\<open>Warning\<close>
  finding whose message is that line (the text up to the line feed, without a carriage return
  before it), in the order of the output, and adds no other finding, unless the linter failed
  without any output. When the linter failed and its standard output is empty, the scan adds
  instead exactly one \<^verbatim>\<open>Error\<close> finding that carries the trimmed standard error. In every case
  the static checks of a readable manifest follow the findings of the bridge.
\<close>

theorem lint_lines_become_warnings:
  "(\<not> (run_failed run \<and> stdout run = []) \<and>
    (\<forall>l\<in>set (Split (stdout run) [newline]). length l < MaxScanTokenSize)
      \<longrightarrow> lintCheck p run = map (lintWarning p) (outputLines (stdout run))) \<and>
   (run_failed run \<and> stdout run = []
      \<longrightarrow> lintCheck p run = [\<lparr>File = p, Severity = Error,
             Message = ''puppet-lint error: '' @ TrimSpace (stderr run)\<rparr>]) \<and>
   puppetFile p (run, ReadOk content) = lintCheck p run @ staticChecks p content"
proof (intro conjI impI)
  assume a: "\<not> (run_failed run \<and> stdout run = []) \<and>
    (\<forall>l\<in>set (Split (stdout run) [newline]). length l < MaxScanTokenSize)"
  then have "scanLines [] (stdout run) = (outputLines (stdout run), None)"
    using scanLines_short [of "[]" "stdout run"] by (simp add: Split_def outputLines_def)
  with a show "lintCheck p run = map (lintWarning p) (outputLines (stdout run))"
    by (auto simp: lintCheck_def runPuppetLint_def)
next
  assume "run_failed run \<and> stdout run = []"
  then show "lintCheck p run = [\<lparr>File = p, Severity = Error,
             Message = ''puppet-lint error: '' @ TrimSpace (stderr run)\<rparr>]"
    by (simp add: lintCheck_def runPuppetLint_def)
next
  show "puppetFile p (run, ReadOk content) = lintCheck p run @ staticChecks p content"
    by (simp add: puppetFile_def)
qed

theorem lint_lines_become_warnings_witness:
  "\<not> (run_failed \<lparr>run_failed = True,
          stdout = ''WARNING: tab character found on line 3'' @ [newline]
                   @ ''ERROR: trailing whitespace found on line 7'' @ [newline],
          stderr = []\<rparr> \<and>
      stdout \<lparr>run_failed = True,
          stdout = ''WARNING: tab character found on line 3'' @ [newline]
                   @ ''ERROR: trailing whitespace found on line 7'' @ [newline],
          stderr = []\<rparr> = []) \<and>
   list_all (\<lambda>l. length l < MaxScanTokenSize)
     (Split (''WARNING: tab character found on line 3'' @ [newline]
             @ ''ERROR: trailing whitespace found on line 7'' @ [newline]) [newline]) \<and>
   lintCheck ''init.pp'' \<lparr>run_failed = True,
          stdout = ''WARNING: tab character found on line 3'' @ [newline]
                   @ ''ERROR: trailing whitespace found on line 7'' @ [newline],
          stderr = []\<rparr>
     = [\<lparr>File = ''init.pp'', Severity = Warning,
         Message = ''WARNING: tab character found on line 3''\<rparr>,
        \<lparr>File = ''init.pp'', Severity = Warning,
         Message = ''ERROR: trailing whitespace found on line 7''\<rparr>] \<and>
   lintCheck ''init.pp'' \<lparr>run_failed = True, stdout = [],
          stderr = ''puppet-lint: command not found'' @ [newline]\<rparr>
     = [\<lparr>File = ''init.pp'', Severity = Error,
         Message = ''puppet-lint error: puppet-lint: command not found''\<rparr>]"
  using lint_lines_become_warnings
      [of "\<lparr>run_failed = True,
          stdout = ''WARNING: tab character found on line 3'' @ [newline]
                   @ ''ERROR: trailing whitespace found on line 7'' @ [newline],
          stderr = []\<rparr>" "''init.pp''"]
    lint_lines_become_warnings
      [of "\<lparr>run_failed = True, stdout = [],
          stderr = ''puppet-lint: command not found'' @ [newline]\<rparr>" "''init.pp''"]
  by (simp add: Split_def newline_def MaxScanTokenSize_def outputLines_def dropCR_def
      lintWarning_def TrimSpace_def isSpace_def)

section \<open>Unused variables\<close>



section \<open>Walks without a file of the dialect\<close>

text \<open>
  C9. When the traversal succeeds and the walk meets no file with the dialect's extension
  (\<^verbatim>\<open>.tf\<close>; \<^verbatim>\<open>.yml\<close> or \<^verbatim>\<open>.yaml\<close>; \<^verbatim>\<open>.pp\<close>), \<^verbatim>\<open>Scan\<close> returns an empty finding list and a
  nil error: a directory and a file with another extension add no finding.
\<close>

theorem scan_without_matching_file:
  "(\<not> walk_fails w1 \<and> no_file_with_ext [''.tf''] w1 \<longrightarrow> terraformScan run w1 = ([], None)) \<and>
   (\<not> walk_fails w2 \<and> no_file_with_ext [''.yml'', ''.yaml''] w2
      \<longrightarrow> ansibleScan run w2 = ([], None)) \<and>
   (\<not> walk_fails w3 \<and> no_file_with_ext [''.pp''] w3 \<longrightarrow> puppetScan w3 = ([], None))"
proof (intro conjI impI)
  assume a: "\<not> walk_fails w1 \<and> no_file_with_ext [''.tf''] w1"
  then have "concat (map (contribution (terraformEntry run)) w1) = []"
    by (intro no_file_contribution [where exts = "[''.tf'']"]) (simp_all add: terraformEntry_def)
  with a show "terraformScan run w1 = ([], None)"
    by (simp add: terraformScan_def Walk_no_error [OF terraformVisit_like])
next
  assume a: "\<not> walk_fails w2 \<and> no_file_with_ext [''.yml'', ''.yaml''] w2"
  then have "concat (map (contribution (ansibleEntry run)) w2) = []"
    by (intro no_file_contribution [where exts = "[''.yml'', ''.yaml'']"])
       (simp_all add: ansibleEntry_def)
  with a show "ansibleScan run w2 = ([], None)"
    by (simp add: ansibleScan_def Walk_no_error [OF ansibleVisit_like])
next
  assume a: "\<not> walk_fails w3 \<and> no_file_with_ext [''.pp''] w3"
  then have "concat (map (contribution puppetEntry) w3) = []"
    by (intro no_file_contribution [where exts = "[''.pp'']"]) (simp_all add: puppetEntry_def)
  with a show "puppetScan w3 = ([], None)"
    by (simp add: puppetScan_def Walk_no_error [OF puppetVisit_like])
qed

theorem scan_without_matching_file_witness:
  "\<not> walk_fails [Directory ''infra'', RegularFile ''infra/README.md'' (ParseError ''unread'')] \<and>
   no_file_with_ext [''.tf''] [Directory ''infra'', RegularFile ''infra/README.md'' (ParseError ''unread'')] \<and>
   terraformScan source_run
     [Directory ''infra'', RegularFile ''infra/README.md'' (ParseError ''unread'')] = ([], None) \<and>
   \<not> walk_fails [Directory ''roles.yml'', RegularFile ''roles.yml/site.yml.bak'' (Plays [])] \<and>
   no_file_with_ext [''.yml'', ''.yaml'']
     [Directory ''roles.yml'', RegularFile ''roles.yml/site.yml.bak'' (Plays [])] \<and>
   ansibleScan source_run
     [Directory ''roles.yml'', RegularFile ''roles.yml/site.yml.bak'' (Plays [])] = ([], None) \<and>
   \<not> walk_fails [Directory ''manifests'',
     RegularFile ''manifests/init'' (\<lparr>run_failed = False, stdout = [], stderr = []\<rparr>, ReadOk [])] \<and>
   no_file_with_ext [''.pp''] [Directory ''manifests'',
     RegularFile ''manifests/init'' (\<lparr>run_failed = False, stdout = [], stderr = []\<rparr>, ReadOk [])] \<and>
   puppetScan [Directory ''manifests'',
     RegularFile ''manifests/init'' (\<lparr>run_failed = False, stdout = [], stderr = []\<rparr>, ReadOk [])]
     = ([], None)"
  using scan_without_matching_file
    [of "[Directory ''infra'', RegularFile ''infra/README.md'' (ParseError ''unread'')]"
        source_run
        "[Directory ''roles.yml'', RegularFile ''roles.yml/site.yml.bak'' (Plays [])]"
        "[Directory ''manifests'',
          RegularFile ''manifests/init'' (\<lparr>run_failed = False, stdout = [], stderr = []\<rparr>, ReadOk [])]"]
  by (simp add: walk_fails_def no_file_with_ext_def Ext_def)

section \<open>A password assignment in a manifest\<close>

text \<open>
  C10. When the text of a manifest contains a lower-case password assignment, that is
  \<^verbatim>\<open>password\<close>, optional white space, \<^verbatim>\<open>=>\<close>, optional white space and a quoted value on one
  line, the scan reports it twice: the hardcoded-password finding, of severity \<^verbatim>\<open>Error\<close>, and
  the finding that the disallowed parameter \<^verbatim>\<open>password\<close> is used, of severity \<^verbatim>\<open>Warning\<close>.
\<close>

theorem password_assignment_reported_twice:
  "Severity (hardcodedPassword p) = Error \<and> Severity (disallowedParam p ''password'') = Warning \<and>
   (content = pre @ ''password'' @ ws1 @ ''=>'' @ ws2 @ [q] @ val @ [q'] @ post \<and>
    (\<forall>c\<in>set ws1. reSpace c) \<and> (\<forall>c\<in>set ws2. reSpace c) \<and> isQuote q \<and> isQuote q' \<and>
    newline \<notin> set val \<and>
    Ext p = ''.pp'' \<and> \<not> walk_fails walk \<and> RegularFile p (run, ReadOk content) \<in> set walk
    \<longrightarrow> hardcodedPassword p \<in> set (fst (puppetScan walk)) \<and>
        disallowedParam p ''password'' \<in> set (fst (puppetScan walk)))"
proof (intro conjI impI)
  show "Severity (hardcodedPassword p) = Error" by (simp add: hardcodedPassword_def)
  show "Severity (disallowedParam p ''password'') = Warning" by (simp add: disallowedParam_def)
next
  assume a: "content = pre @ ''password'' @ ws1 @ ''=>'' @ ws2 @ [q] @ val @ [q'] @ post \<and>
    (\<forall>c\<in>set ws1. reSpace c) \<and> (\<forall>c\<in>set ws2. reSpace c) \<and> isQuote q \<and> isQuote q' \<and>
    newline \<notin> set val \<and>
    Ext p = ''.pp'' \<and> \<not> walk_fails walk \<and> RegularFile p (run, ReadOk content) \<in> set walk"
  then have r: "hardcodedSecretRegex content"
    using hardcodedSecretRegex_assignment [of ws1 ws2 q q' val pre post] by simp
  have "sublist ''password'' (pre @ ''password'' @ (ws1 @ ''=>'' @ ws2 @ [q] @ val @ [q'] @ post))"
    by (rule sublist_appendI)
  with a have c: "Contains content ''password''"
    by (simp add: Contains_def)
  have "''password'' \<in> set disallowedParams" by (simp add: disallowedParams_def)
  with c have "disallowedParam p ''password''
      \<in> set (map (disallowedParam p) (filter (\<lambda>param. Contains content param) disallowedParams))"
    by simp
  with r have "hardcodedPassword p \<in> set (staticChecks p content)"
    and "disallowedParam p ''password'' \<in> set (staticChecks p content)"
    unfolding staticChecks_def by simp_all
  moreover from a have nf: "\<not> walk_fails walk"
    and mem: "RegularFile p (run, ReadOk content) \<in> set walk" and ext: "Ext p = ''.pp''"
    by blast+
  have "set (puppetEntry p (run, ReadOk content)) \<subseteq> set (fst (puppetScan walk))"
    unfolding puppetScan_def by (rule Walk_contains [OF puppetVisit_like nf mem])
  moreover have "set (staticChecks p content) \<subseteq> set (puppetEntry p (run, ReadOk content))"
    by (simp add: puppetEntry_def puppetFile_def ext)
  ultimately show "hardcodedPassword p \<in> set (fst (puppetScan walk))"
    and "disallowedParam p ''password'' \<in> set (fst (puppetScan walk))"
    by blast+
qed

theorem password_assignment_reported_twice_witness:
  "Ext ''manifests/db.pp'' = ''.pp'' \<and> isQuote (CHR 0x27) \<and>
   hardcodedPassword ''manifests/db.pp'' \<in> set (fst (puppetScan
     [Directory ''manifests'',
      RegularFile ''manifests/db.pp''
        (\<lparr>run_failed = False, stdout = [], stderr = []\<rparr>,
         ReadOk (''  '' @ ''password'' @ '' '' @ ''=>'' @ '' '' @ [CHR 0x27] @ ''supersecret''
                 @ [CHR 0x27] @ '',''))])) \<and>
   disallowedParam ''manifests/db.pp'' ''password'' \<in> set (fst (puppetScan
     [Directory ''manifests'',
      RegularFile ''manifests/db.pp''
        (\<lparr>run_failed = False, stdout = [], stderr = []\<rparr>,
         ReadOk (''  '' @ ''password'' @ '' '' @ ''=>'' @ '' '' @ [CHR 0x27] @ ''supersecret''
                 @ [CHR 0x27] @ '',''))]))"
  using password_assignment_reported_twice
    [of "''manifests/db.pp''"
        "''  '' @ ''password'' @ '' '' @ ''=>'' @ '' '' @ [CHR 0x27] @ ''supersecret''
           @ [CHR 0x27] @ '',''"
        "''  ''" "'' ''" "'' ''" "CHR 0x27" "''supersecret''" "CHR 0x27" "'',''"
        "[Directory ''manifests'',
          RegularFile ''manifests/db.pp''
            (\<lparr>run_failed = False, stdout = [], stderr = []\<rparr>,
             ReadOk (''  '' @ ''password'' @ '' '' @ ''=>'' @ '' '' @ [CHR 0x27] @ ''supersecret''
                     @ [CHR 0x27] @ '',''))]"
        "\<lparr>run_failed = False, stdout = [], stderr = []\<rparr>"]
  by (simp add: Ext_def isQuote_def reSpace_def newline_def walk_fails_def)

end
